theory Spec2Isabelle
  imports Main "HOL-Library.Log_Nat" "HOL-Library.Multiset"
begin

section \<open>JavaScript numbers\<close>

text \<open>
  The amounts, limits and spent totals of \<^verbatim>\<open>src/types/index.ts\<close> are TypeScript
  \<^verbatim>\<open>number\<close>s: IEEE 754 binary64 values. Every finite binary64 value is an integer
  multiple of the smallest subnormal \<open>2^-1074\<close>, so a finite value is kept as that
  integer: \<open>Finite n\<close> stands for \<open>n * 2^-1074\<close>, and \<open>Finite 0\<close> is \<open>+0\<close>. The values
  a double can hold are those with at most 53 significant bits and a magnitude below
  \<open>2^1024\<close>, that is \<open>\<bar>n\<bar> < 2^2098\<close>.
\<close>

datatype number = NaN | PosInfinity | NegInfinity | NegZero | Finite int

text \<open>
  Rounding of an exact integer to 53 significant bits, to nearest, ties to even: the
  low \<open>k\<close> bits are cut off, and the kept part goes up by one when the cut part is more
  than half a unit, or exactly half and the kept part is odd.
\<close>

definition round53 :: "int \<Rightarrow> int" where
  "round53 n =
     (let a = \<bar>n\<bar>;
          k = nat (bitlen a - 53);
          q = a div 2 ^ k;
          r = a mod 2 ^ k
      in sgn n * ((if 2 ^ k < 2 * r \<or> (2 * r = 2 ^ k \<and> odd q) then q + 1 else q) * 2 ^ k))"

definition roundTiesToEven :: "int \<Rightarrow> number" where
  "roundTiesToEven n =
     (let m = round53 n
      in if 2 ^ 2098 \<le> \<bar>m\<bar> then (if n < 0 then NegInfinity else PosInfinity)
         else Finite m)"

text \<open>The \<^verbatim>\<open>+\<close> of two numbers (ECMAScript Number::add, IEEE 754 addition).\<close>

fun number_add :: "number \<Rightarrow> number \<Rightarrow> number" where
  "number_add NaN y = NaN"
| "number_add x NaN = NaN"
| "number_add PosInfinity NegInfinity = NaN"
| "number_add NegInfinity PosInfinity = NaN"
| "number_add PosInfinity y = PosInfinity"
| "number_add x PosInfinity = PosInfinity"
| "number_add NegInfinity y = NegInfinity"
| "number_add x NegInfinity = NegInfinity"
| "number_add NegZero y = y"
| "number_add x NegZero = x"
| "number_add (Finite a) (Finite b) = roundTiesToEven (a + b)"

instantiation number :: "{zero, plus}"
begin

definition zero_number :: number where
  "zero_number = Finite 0"

definition plus_number :: "number \<Rightarrow> number \<Rightarrow> number" where
  "plus_number x y = number_add x y"

instance ..

end

text \<open>
  \<open>binary64 m e\<close> is the double of value \<open>m * 2^e\<close> (for \<open>-1074 \<le> e\<close>), so that
  \<open>binary64 50 0\<close> is \<open>50\<close> and \<open>binary64 3602879701896397 (-55)\<close> is the double
  written \<open>0.1\<close>.
\<close>

definition binary64 :: "int \<Rightarrow> int \<Rightarrow> number" where
  "binary64 m e = Finite (m * 2 ^ nat (e + 1074))"

text \<open>Whole amounts: the doubles \<open>0, 1, 2, ...\<close> and the natural number one stands for.\<close>

definition isWhole :: "number \<Rightarrow> bool" where
  "isWhole x = (case x of Finite n \<Rightarrow> 0 \<le> n \<and> n mod 2 ^ 1074 = 0 | _ \<Rightarrow> False)"

definition wholeValue :: "number \<Rightarrow> nat" where
  "wholeValue x = (case x of Finite n \<Rightarrow> nat (n div 2 ^ 1074) | _ \<Rightarrow> 0)"

section \<open>The data model (\<^verbatim>\<open>src/types/index.ts\<close>)\<close>

datatype TransactionType = Income | Expense

datatype Period = Weekly | Monthly | Yearly

datatype CategoryType = CategoryIncome | CategoryExpense | Both

record User =
  u_id :: string
  u_name :: string
  u_email :: string
  u_notificationsEnabled :: bool

record Transaction =
  t_id :: string
  t_amount :: number
  t_category :: string
  t_date :: string
  t_description :: string
  t_type :: TransactionType

record Budget =
  b_id :: string
  b_category :: string
  b_limit :: number
  b_spent :: number
  b_period :: Period

record Category =
  c_id :: string
  c_name :: string
  c_type :: CategoryType
  c_color :: string

text \<open>
  \<^verbatim>\<open>Omit<Transaction, "id">\<close>, \<^verbatim>\<open>Omit<Budget, "id" | "spent">\<close> and
  \<^verbatim>\<open>Omit<Category, "id">\<close>, the arguments of the three \<^verbatim>\<open>add\<close> entry points.
\<close>

record TransactionInput =
  ti_amount :: number
  ti_category :: string
  ti_date :: string
  ti_description :: string
  ti_type :: TransactionType

record BudgetInput =
  bi_category :: string
  bi_limit :: number
  bi_period :: Period

record CategoryInput =
  ci_name :: string
  ci_type :: CategoryType
  ci_color :: string

text \<open>
  \<^verbatim>\<open>Partial<Transaction>\<close>, \<^verbatim>\<open>Partial<Budget>\<close> and \<^verbatim>\<open>Partial<Category>\<close>: every
  property may be absent (\<open>None\<close>). The object spread \<^verbatim>\<open>{ ...tr, ...transaction }\<close>
  keeps a property of \<^verbatim>\<open>tr\<close> unless the partial object has it.
\<close>

record TransactionPartial =
  tp_id :: "string option"
  tp_amount :: "number option"
  tp_category :: "string option"
  tp_date :: "string option"
  tp_description :: "string option"
  tp_type :: "TransactionType option"

record BudgetPartial =
  bp_id :: "string option"
  bp_category :: "string option"
  bp_limit :: "number option"
  bp_spent :: "number option"
  bp_period :: "Period option"

record CategoryPartial =
  cp_id :: "string option"
  cp_name :: "string option"
  cp_type :: "CategoryType option"
  cp_color :: "string option"

definition orElse :: "'a option \<Rightarrow> 'a \<Rightarrow> 'a" where
  "orElse v d = (case v of None \<Rightarrow> d | Some x \<Rightarrow> x)"

definition spreadTransaction :: "Transaction \<Rightarrow> TransactionPartial \<Rightarrow> Transaction" where
  "spreadTransaction tr p =
     \<lparr>t_id = orElse (tp_id p) (t_id tr),
      t_amount = orElse (tp_amount p) (t_amount tr),
      t_category = orElse (tp_category p) (t_category tr),
      t_date = orElse (tp_date p) (t_date tr),
      t_description = orElse (tp_description p) (t_description tr),
      t_type = orElse (tp_type p) (t_type tr)\<rparr>"

definition spreadBudget :: "Budget \<Rightarrow> BudgetPartial \<Rightarrow> Budget" where
  "spreadBudget b p =
     \<lparr>b_id = orElse (bp_id p) (b_id b),
      b_category = orElse (bp_category p) (b_category b),
      b_limit = orElse (bp_limit p) (b_limit b),
      b_spent = orElse (bp_spent p) (b_spent b),
      b_period = orElse (bp_period p) (b_period b)\<rparr>"

definition spreadCategory :: "Category \<Rightarrow> CategoryPartial \<Rightarrow> Category" where
  "spreadCategory c p =
     \<lparr>c_id = orElse (cp_id p) (c_id c),
      c_name = orElse (cp_name p) (c_name c),
      c_type = orElse (cp_type p) (c_type c),
      c_color = orElse (cp_color p) (c_color c)\<rparr>"

section \<open>The remote store and the provider's state\<close>

text \<open>
  The Supabase client is an external collaborator. A row it returns is kept with the
  values the provider reads from it: \<open>tr_amount\<close> is \<^verbatim>\<open>Number(t.amount)\<close>, \<open>tr_date\<close> is
  \<^verbatim>\<open>new Date(t.date).toISOString().split('T')[0]\<close> (\<open>None\<close> when the date is invalid and
  \<^verbatim>\<open>toISOString\<close> throws), \<open>tr_description\<close> is \<open>None\<close> for a null description.
\<close>

record TransactionRow =
  tr_id :: string
  tr_amount :: number
  tr_category :: string
  tr_date :: "string option"
  tr_description :: "string option"
  tr_type :: TransactionType

record BudgetRow =
  br_id :: string
  br_category :: string
  br_budget_limit :: number
  br_spent :: number
  br_period :: Period

record CategoryRow =
  cr_id :: string
  cr_name :: string
  cr_type :: CategoryType
  cr_color :: string

text \<open>The calls the provider makes on the three tables, with their payloads.\<close>

datatype Request =
    InsertTransaction string TransactionInput
  | UpdateTransaction string "number option" "string option" "string option" "string option"
      "TransactionType option"
  | DeleteTransaction string
  | InsertBudget string string number number Period
  | UpdateBudget string "string option" "number option" "number option" "Period option"
  | UpdateBudgetSpent string number
  | UpdateSpentByCategory string number
  | DeleteBudget string
  | InsertCategory string CategoryInput
  | UpdateCategory string "string option" "CategoryType option" "string option"
  | DeleteCategory string
  | SelectTransactions
  | SelectBudgets
  | SelectCategories

text \<open>
  What the remote store answers: \<open>Rejected\<close> is a non-null \<^verbatim>\<open>error\<close>, \<open>Done\<close> a success
  with no row asked for, the others a success with \<^verbatim>\<open>data\<close>.
\<close>

datatype Reply =
    Rejected string
  | Done
  | TransactionData TransactionRow
  | BudgetData BudgetRow
  | CategoryData CategoryRow
  | TransactionsData "TransactionRow list"
  | BudgetsData "BudgetRow list"
  | CategoriesData "CategoryRow list"

type_synonym Remote = "Request \<Rightarrow> Reply"

text \<open>What a call leaves behind outside the state: remote calls, console errors, toasts
  (title, description, whether the variant is destructive).\<close>

datatype Event =
    RemoteCall Request
  | ConsoleError string
  | Toast string string bool

text \<open>The four \<^verbatim>\<open>useState\<close> cells of \<^verbatim>\<open>FinanceProvider\<close>.\<close>

record State =
  transactions :: "Transaction list"
  budgets :: "Budget list"
  categories :: "Category list"
  isLoading :: bool

text \<open>
  A function of the provider is a closure of one render: the names \<^verbatim>\<open>transactions\<close>,
  \<^verbatim>\<open>budgets\<close>, \<^verbatim>\<open>isAuthenticated\<close> and \<^verbatim>\<open>user\<close> in its body are the values of that
  render (\<open>rendered\<close>), constants for the whole call. A setter called with a function
  (\<^verbatim>\<open>setBudgets(prev => ...)\<close>) transforms the current state, the \<open>State\<close> argument that
  every function below passes on; a setter called with a value replaces it. A call made
  from the latest render starts with \<open>rendered rd = s\<close>.
\<close>

record Render =
  rendered :: State
  isAuthenticated :: bool
  user :: "User option"

section \<open>The provider's functions (\<^verbatim>\<open>src/contexts/FinanceContext.tsx\<close>)\<close>

text \<open>
  Every function takes the remote store's answers, the render it closes over and the
  current state, and returns the state its setters leave, with the events in program
  order. No function throws: each body is a \<^verbatim>\<open>try\<close>/\<^verbatim>\<open>catch\<close> whose handler logs and
  shows a toast.
\<close>

definition toTransaction :: "TransactionRow \<Rightarrow> Transaction option" where
  "toTransaction d =
     (case tr_date d of
        None \<Rightarrow> None
      | Some day \<Rightarrow>
          Some \<lparr>t_id = tr_id d, t_amount = tr_amount d, t_category = tr_category d,
                t_date = day, t_description = orElse (tr_description d) [],
                t_type = tr_type d\<rparr>)"

definition toBudget :: "BudgetRow \<Rightarrow> Budget" where
  "toBudget d =
     \<lparr>b_id = br_id d, b_category = br_category d, b_limit = br_budget_limit d,
      b_spent = br_spent d, b_period = br_period d\<rparr>"

definition toCategory :: "CategoryRow \<Rightarrow> Category" where
  "toCategory d = \<lparr>c_id = cr_id d, c_name = cr_name d, c_type = cr_type d, c_color = cr_color d\<rparr>"

text \<open>\<^verbatim>\<open>transactionsData.map(t => ...)\<close>: the first invalid date throws.\<close>

fun toTransactions :: "TransactionRow list \<Rightarrow> Transaction list option" where
  "toTransactions [] = Some []"
| "toTransactions (d # ds) =
     (case toTransaction d of
        None \<Rightarrow> None
      | Some t \<Rightarrow> (case toTransactions ds of None \<Rightarrow> None | Some ts \<Rightarrow> Some (t # ts)))"

definition refreshFailed :: "Event list" where
  "refreshFailed =
     [ConsoleError ''Error fetching finance data:'',
      Toast ''Data loading failed'' ''There was an error loading your financial data'' True]"

text \<open>
  \<^verbatim>\<open>refreshData\<close> tests only the \<^verbatim>\<open>error\<close> of each select, so the three selects are
  all issued unless one is rejected. The rows are read afterwards, one table at a time:
  \<^verbatim>\<open>setTransactions(transactionsData.map(...))\<close> throws before it sets anything when
  the data is missing or a date is invalid, \<^verbatim>\<open>budgetsData.map\<close> throws when the
  transactions are already set, \<^verbatim>\<open>categoriesData.map\<close> when the budgets are set too.
\<close>

definition transactionRows :: "Reply \<Rightarrow> Transaction list option" where
  "transactionRows reply =
     (case reply of TransactionsData transactionsData \<Rightarrow> toTransactions transactionsData
      | _ \<Rightarrow> None)"

definition budgetRows :: "Reply \<Rightarrow> Budget list option" where
  "budgetRows reply =
     (case reply of BudgetsData budgetsData \<Rightarrow> Some (map toBudget budgetsData) | _ \<Rightarrow> None)"

definition categoryRows :: "Reply \<Rightarrow> Category list option" where
  "categoryRows reply =
     (case reply of CategoriesData categoriesData \<Rightarrow> Some (map toCategory categoriesData)
      | _ \<Rightarrow> None)"

definition rejected :: "Reply \<Rightarrow> bool" where
  "rejected reply = (case reply of Rejected e \<Rightarrow> True | _ \<Rightarrow> False)"

definition refreshData :: "Remote \<Rightarrow> Render \<Rightarrow> State \<Rightarrow> State \<times> Event list" where
  "refreshData remote rd s =
     (if isAuthenticated rd \<and> user rd \<noteq> None then
        (if rejected (remote SelectTransactions) then
           (s\<lparr>isLoading := False\<rparr>, [RemoteCall SelectTransactions] @ refreshFailed)
         else if rejected (remote SelectBudgets) then
           (s\<lparr>isLoading := False\<rparr>,
            [RemoteCall SelectTransactions, RemoteCall SelectBudgets] @ refreshFailed)
         else if rejected (remote SelectCategories) then
           (s\<lparr>isLoading := False\<rparr>,
            [RemoteCall SelectTransactions, RemoteCall SelectBudgets,
             RemoteCall SelectCategories] @ refreshFailed)
         else
           (let selects = [RemoteCall SelectTransactions, RemoteCall SelectBudgets,
                           RemoteCall SelectCategories]
            in case transactionRows (remote SelectTransactions) of
                 None \<Rightarrow> (s\<lparr>isLoading := False\<rparr>, selects @ refreshFailed)
               | Some ts \<Rightarrow>
                   (case budgetRows (remote SelectBudgets) of
                      None \<Rightarrow>
                        (s\<lparr>transactions := ts, isLoading := False\<rparr>, selects @ refreshFailed)
                    | Some bs \<Rightarrow>
                        (case categoryRows (remote SelectCategories) of
                           None \<Rightarrow>
                             (s\<lparr>transactions := ts, budgets := bs, isLoading := False\<rparr>,
                              selects @ refreshFailed)
                         | Some cs \<Rightarrow>
                             (s\<lparr>transactions := ts, budgets := bs, categories := cs,
                                isLoading := False\<rparr>,
                              selects)))))
      else (s\<lparr>isLoading := False\<rparr>, []))"

text \<open>
  \<^verbatim>\<open>calculateSpentAmount(category)\<close> reads the \<^verbatim>\<open>transactions\<close> of its render; the
  ledger is its first argument here (the spec's \<open>computeSpent(ledger, category)\<close>).
\<close>

definition calculateSpentAmount :: "Transaction list \<Rightarrow> string \<Rightarrow> number" where
  "calculateSpentAmount ledger category =
     foldl (\<lambda>total tr. total + t_amount tr) 0
       (filter (\<lambda>tr. t_category tr = category \<and> t_type tr = Expense) ledger)"

text \<open>
  The sum in the words of the specification (the sum of \<open>amount\<close> over all
  transactions where \<open>type == expense\<close> and \<open>category\<close> equals the given category),
  taken exactly: \<open>exactAmount\<close> is a finite amount in units of \<open>2^-1074\<close>, and
  \<open>computeSpent_spec\<close> the integer sum of these over the matching transactions.
\<close>

definition exactAmount :: "number \<Rightarrow> int" where
  "exactAmount x = (case x of Finite n \<Rightarrow> n | _ \<Rightarrow> 0)"

definition computeSpent_spec :: "Transaction list \<Rightarrow> string \<Rightarrow> int" where
  "computeSpent_spec ledger category =
     sum_list (map (\<lambda>tr. exactAmount (t_amount tr))
       (filter (\<lambda>tr. t_type tr = Expense \<and> t_category tr = category) ledger))"

text \<open>
  \<^verbatim>\<open>updateBudgetsAfterTransaction\<close> is called without \<^verbatim>\<open>await\<close>: it runs up to its own
  first \<^verbatim>\<open>await\<close> (the events of the first component), the caller goes on, and the rest
  (the third component) happens after the caller has finished. The state is the one
  left when all of it is over.
\<close>

definition updateBudgetsAfterTransaction ::
  "Remote \<Rightarrow> Render \<Rightarrow> string \<Rightarrow> number \<Rightarrow> State \<Rightarrow> Event list \<times> State \<times> Event list" where
  "updateBudgetsAfterTransaction remote rd category amount s =
     (if isAuthenticated rd \<and> user rd \<noteq> None then
        (let s1 = s\<lparr>budgets :=
                     map (\<lambda>budget. if b_category budget = category
                                    then budget\<lparr>b_spent := b_spent budget + amount\<rparr>
                                    else budget)
                       (budgets s)\<rparr>
         in case find (\<lambda>b. b_category b = category) (budgets (rendered rd)) of
              None \<Rightarrow> ([], s1, [])
            | Some budgetToUpdate \<Rightarrow>
                (let req = UpdateSpentByCategory category (b_spent budgetToUpdate + amount)
                 in case remote req of
                      Rejected e \<Rightarrow>
                        (let (s2, evs) = refreshData remote rd s1
                         in ([RemoteCall req], s2,
                             ConsoleError ''Error updating budget spent amount:'' # evs))
                    | _ \<Rightarrow> ([RemoteCall req], s1, [])))
      else ([], s, []))"

text \<open>The \<^verbatim>\<open>for\<close> loop of \<^verbatim>\<open>recalculateBudgets\<close>: it stops at the first rejected update.\<close>

fun persistSpent :: "Remote \<Rightarrow> Budget list \<Rightarrow> Event list \<times> bool" where
  "persistSpent remote [] = ([], True)"
| "persistSpent remote (budget # rest) =
     (let req = UpdateBudgetSpent (b_id budget) (b_spent budget)
      in case remote req of
           Rejected e \<Rightarrow> ([RemoteCall req], False)
         | _ \<Rightarrow> (let (evs, ok) = persistSpent remote rest in (RemoteCall req # evs, ok)))"

definition recalculateBudgets :: "Remote \<Rightarrow> Render \<Rightarrow> State \<Rightarrow> State \<times> Event list" where
  "recalculateBudgets remote rd s =
     (if isAuthenticated rd \<and> user rd \<noteq> None then
        (let updatedBudgets =
               map (\<lambda>budget. budget\<lparr>b_spent :=
                      calculateSpentAmount (transactions (rendered rd)) (b_category budget)\<rparr>)
                 (budgets (rendered rd));
             (evs, ok) = persistSpent remote updatedBudgets
         in (s\<lparr>budgets := updatedBudgets\<rparr>,
             evs @ (if ok then []
                    else [ConsoleError ''Error recalculating budgets:'',
                          Toast ''Budget update failed''
                            ''There was an error updating your budget calculations'' True])))
      else (s, []))"

subsection \<open>Transactions\<close>

definition addTransaction ::
  "Remote \<Rightarrow> Render \<Rightarrow> TransactionInput \<Rightarrow> State \<Rightarrow> State \<times> Event list" where
  "addTransaction remote rd transaction s =
     (case (isAuthenticated rd, user rd) of
        (True, Some u) \<Rightarrow>
          (let req = InsertTransaction (u_id u) transaction;
               failed = (s, [RemoteCall req, ConsoleError ''Error adding transaction:'',
                             Toast ''Failed to add transaction''
                               ''There was an error saving your transaction'' True]);
               added = Toast ''Transaction added'' ''Your transaction has been saved'' False
           in case remote req of
                TransactionData d \<Rightarrow>
                  (case toTransaction d of
                     None \<Rightarrow> failed
                   | Some newTransaction \<Rightarrow>
                       (let s1 = s\<lparr>transactions := newTransaction # transactions s\<rparr>
                        in if ti_type transaction = Expense then
                             (let (now, s2, later) =
                                    updateBudgetsAfterTransaction remote rd
                                      (ti_category transaction) (ti_amount transaction) s1
                              in (s2, [RemoteCall req] @ now @ [added] @ later))
                           else (s1, [RemoteCall req, added])))
              | _ \<Rightarrow> failed)
      | _ \<Rightarrow> (s, []))"

definition updateTransaction ::
  "Remote \<Rightarrow> Render \<Rightarrow> string \<Rightarrow> TransactionPartial \<Rightarrow> State \<Rightarrow> State \<times> Event list" where
  "updateTransaction remote rd ident transaction s =
     (case (isAuthenticated rd, user rd) of
        (True, Some u) \<Rightarrow>
          (let req = UpdateTransaction ident (tp_amount transaction) (tp_category transaction)
                       (tp_date transaction) (tp_description transaction) (tp_type transaction)
           in case remote req of
                Rejected e \<Rightarrow>
                  (s, [RemoteCall req, ConsoleError ''Error updating transaction:'',
                       Toast ''Failed to update transaction''
                         ''There was an error updating your transaction'' True])
              | _ \<Rightarrow>
                  (let s1 = s\<lparr>transactions :=
                               map (\<lambda>tr. if t_id tr = ident then spreadTransaction tr transaction
                                         else tr)
                                 (transactions s)\<rparr>;
                       (s2, evs) = recalculateBudgets remote rd s1
                   in (s2, [RemoteCall req] @ evs @
                           [Toast ''Transaction updated'' ''Your transaction has been updated''
                              False])))
      | _ \<Rightarrow> (s, []))"

definition deleteTransaction ::
  "Remote \<Rightarrow> Render \<Rightarrow> string \<Rightarrow> State \<Rightarrow> State \<times> Event list" where
  "deleteTransaction remote rd ident s =
     (case (isAuthenticated rd, user rd) of
        (True, Some u) \<Rightarrow>
          (let req = DeleteTransaction ident
           in case remote req of
                Rejected e \<Rightarrow>
                  (s, [RemoteCall req, ConsoleError ''Error deleting transaction:'',
                       Toast ''Failed to delete transaction''
                         ''There was an error deleting your transaction'' True])
              | _ \<Rightarrow>
                  (let s1 = s\<lparr>transactions := filter (\<lambda>tr. t_id tr \<noteq> ident) (transactions s)\<rparr>;
                       (s2, evs) = recalculateBudgets remote rd s1
                   in (s2, [RemoteCall req] @ evs @
                           [Toast ''Transaction deleted'' ''Your transaction has been deleted''
                              False])))
      | _ \<Rightarrow> (s, []))"

subsection \<open>Budgets\<close>

definition addBudget :: "Remote \<Rightarrow> Render \<Rightarrow> BudgetInput \<Rightarrow> State \<Rightarrow> State \<times> Event list" where
  "addBudget remote rd budget s =
     (case (isAuthenticated rd, user rd) of
        (True, Some u) \<Rightarrow>
          (let spent = calculateSpentAmount (transactions (rendered rd)) (bi_category budget);
               req = InsertBudget (u_id u) (bi_category budget) (bi_limit budget) spent
                       (bi_period budget)
           in case remote req of
                BudgetData d \<Rightarrow>
                  (s\<lparr>budgets := toBudget d # budgets s\<rparr>,
                   [RemoteCall req, Toast ''Budget added'' ''Your budget has been saved'' False])
              | _ \<Rightarrow>
                  (s, [RemoteCall req, ConsoleError ''Error adding budget:'',
                       Toast ''Failed to add budget'' ''There was an error saving your budget''
                         True]))
      | _ \<Rightarrow> (s, []))"

text \<open>
  \<^verbatim>\<open>if (budget.category) updateData.category = budget.category\<close>: an empty string is
  falsy and is left out of the payload, like an absent property.
\<close>

definition truthy :: "string option \<Rightarrow> string option" where
  "truthy v = (case v of Some [] \<Rightarrow> None | _ \<Rightarrow> v)"

definition updateBudget ::
  "Remote \<Rightarrow> Render \<Rightarrow> string \<Rightarrow> BudgetPartial \<Rightarrow> State \<Rightarrow> State \<times> Event list" where
  "updateBudget remote rd ident budget s =
     (case (isAuthenticated rd, user rd) of
        (True, Some u) \<Rightarrow>
          (let req = UpdateBudget ident (truthy (bp_category budget)) (bp_limit budget)
                       (bp_spent budget) (bp_period budget)
           in case remote req of
                Rejected e \<Rightarrow>
                  (s, [RemoteCall req, ConsoleError ''Error updating budget:'',
                       Toast ''Failed to update budget''
                         ''There was an error updating your budget'' True])
              | _ \<Rightarrow>
                  (s\<lparr>budgets := map (\<lambda>b. if b_id b = ident then spreadBudget b budget else b)
                                   (budgets s)\<rparr>,
                   [RemoteCall req,
                    Toast ''Budget updated'' ''Your budget has been updated'' False]))
      | _ \<Rightarrow> (s, []))"

definition deleteBudget :: "Remote \<Rightarrow> Render \<Rightarrow> string \<Rightarrow> State \<Rightarrow> State \<times> Event list" where
  "deleteBudget remote rd ident s =
     (case (isAuthenticated rd, user rd) of
        (True, Some u) \<Rightarrow>
          (let req = DeleteBudget ident
           in case remote req of
                Rejected e \<Rightarrow>
                  (s, [RemoteCall req, ConsoleError ''Error deleting budget:'',
                       Toast ''Failed to delete budget''
                         ''There was an error deleting your budget'' True])
              | _ \<Rightarrow>
                  (s\<lparr>budgets := filter (\<lambda>b. b_id b \<noteq> ident) (budgets s)\<rparr>,
                   [RemoteCall req,
                    Toast ''Budget deleted'' ''Your budget has been deleted'' False]))
      | _ \<Rightarrow> (s, []))"

subsection \<open>Categories\<close>

definition addCategory ::
  "Remote \<Rightarrow> Render \<Rightarrow> CategoryInput \<Rightarrow> State \<Rightarrow> State \<times> Event list" where
  "addCategory remote rd category s =
     (case (isAuthenticated rd, user rd) of
        (True, Some u) \<Rightarrow>
          (let req = InsertCategory (u_id u) category
           in case remote req of
                CategoryData d \<Rightarrow>
                  (s\<lparr>categories := toCategory d # categories s\<rparr>,
                   [RemoteCall req,
                    Toast ''Category added'' ''Your category has been saved'' False])
              | _ \<Rightarrow>
                  (s, [RemoteCall req, ConsoleError ''Error adding category:'',
                       Toast ''Failed to add category''
                         ''There was an error saving your category'' True]))
      | _ \<Rightarrow> (s, []))"

definition updateCategory ::
  "Remote \<Rightarrow> Render \<Rightarrow> string \<Rightarrow> CategoryPartial \<Rightarrow> State \<Rightarrow> State \<times> Event list" where
  "updateCategory remote rd ident category s =
     (case (isAuthenticated rd, user rd) of
        (True, Some u) \<Rightarrow>
          (let req = UpdateCategory ident (cp_name category) (cp_type category)
                       (cp_color category)
           in case remote req of
                Rejected e \<Rightarrow>
                  (s, [RemoteCall req, ConsoleError ''Error updating category:'',
                       Toast ''Failed to update category''
                         ''There was an error updating your category'' True])
              | _ \<Rightarrow>
                  (s\<lparr>categories :=
                       map (\<lambda>c. if c_id c = ident then spreadCategory c category else c)
                         (categories s)\<rparr>,
                   [RemoteCall req,
                    Toast ''Category updated'' ''Your category has been updated'' False]))
      | _ \<Rightarrow> (s, []))"

definition deleteCategory :: "Remote \<Rightarrow> Render \<Rightarrow> string \<Rightarrow> State \<Rightarrow> State \<times> Event list" where
  "deleteCategory remote rd ident s =
     (case (isAuthenticated rd, user rd) of
        (True, Some u) \<Rightarrow>
          (let req = DeleteCategory ident
           in case remote req of
                Rejected e \<Rightarrow>
                  (s, [RemoteCall req, ConsoleError ''Error deleting category:'',
                       Toast ''Failed to delete category''
                         ''There was an error deleting your category'' True])
              | _ \<Rightarrow>
                  (s\<lparr>categories := filter (\<lambda>c. c_id c \<noteq> ident) (categories s)\<rparr>,
                   [RemoteCall req,
                    Toast ''Category deleted'' ''Your category has been deleted'' False]))
      | _ \<Rightarrow> (s, []))"

text \<open>
  An event reports an error when it is a console error or a destructive toast: the two
  ways a failure reaches the user. No function of the provider throws to its caller.
\<close>

definition isError :: "Event \<Rightarrow> bool" where
  "isError ev =
     (case ev of RemoteCall req \<Rightarrow> False | ConsoleError msg \<Rightarrow> True
      | Toast title description destructive \<Rightarrow> destructive)"

section \<open>Example inputs\<close>

text \<open>
  A signed-in and a signed-out render of a given state, a remote store that accepts
  every call and returns what it stored (\<open>accepting\<close>), one that rejects every call
  (\<open>rejecting\<close>), and one that rejects only the update of a budget's spent
  (\<open>spentUpdateFails\<close>).
\<close>

definition alice :: User where
  "alice = \<lparr>u_id = ''u1'', u_name = ''Alice'', u_email = ''alice@example.org'',
            u_notificationsEnabled = True\<rparr>"

definition signedIn :: "State \<Rightarrow> Render" where
  "signedIn s = \<lparr>rendered = s, isAuthenticated = True, user = Some alice\<rparr>"

definition signedOut :: "State \<Rightarrow> Render" where
  "signedOut s = \<lparr>rendered = s, isAuthenticated = False, user = None\<rparr>"

fun accepting :: "Request \<Rightarrow> Reply" where
  "accepting (InsertTransaction uid t) =
     TransactionData \<lparr>tr_id = ''new'', tr_amount = ti_amount t, tr_category = ti_category t,
                      tr_date = Some (ti_date t), tr_description = Some (ti_description t),
                      tr_type = ti_type t\<rparr>"
| "accepting (InsertBudget uid category limit spent period) =
     BudgetData \<lparr>br_id = ''new'', br_category = category, br_budget_limit = limit,
                 br_spent = spent, br_period = period\<rparr>"
| "accepting (InsertCategory uid c) =
     CategoryData \<lparr>cr_id = ''new'', cr_name = ci_name c, cr_type = ci_type c,
                   cr_color = ci_color c\<rparr>"
| "accepting SelectTransactions = TransactionsData []"
| "accepting SelectBudgets = BudgetsData []"
| "accepting SelectCategories = CategoriesData []"
| "accepting req = Done"

definition rejecting :: "Request \<Rightarrow> Reply" where
  "rejecting req = Rejected ''offline''"

definition spentUpdateFails :: "Request \<Rightarrow> Reply" where
  "spentUpdateFails req =
     (case req of UpdateSpentByCategory category spent \<Rightarrow> Rejected ''offline''
      | _ \<Rightarrow> accepting req)"

definition expenseOf :: "string \<Rightarrow> number \<Rightarrow> string \<Rightarrow> Transaction" where
  "expenseOf ident amount category =
     \<lparr>t_id = ident, t_amount = amount, t_category = category, t_date = ''2024-01-05'',
      t_description = [], t_type = Expense\<rparr>"

definition budgetOf :: "string \<Rightarrow> string \<Rightarrow> number \<Rightarrow> Budget" where
  "budgetOf ident category spent =
     \<lparr>b_id = ident, b_category = category, b_limit = binary64 200 0, b_spent = spent,
      b_period = Monthly\<rparr>"

definition store :: "Transaction list \<Rightarrow> Budget list \<Rightarrow> State" where
  "store ts bs = \<lparr>transactions = ts, budgets = bs, categories = [], isLoading = False\<rparr>"

definition expenseInput :: "number \<Rightarrow> string \<Rightarrow> TransactionInput" where
  "expenseInput amount category =
     \<lparr>ti_amount = amount, ti_category = category, ti_date = ''2024-01-05'',
      ti_description = ''lunch'', ti_type = Expense\<rparr>"

definition incomeInput :: "number \<Rightarrow> string \<Rightarrow> TransactionInput" where
  "incomeInput amount category =
     \<lparr>ti_amount = amount, ti_category = category, ti_date = ''2024-01-05'',
      ti_description = ''salary'', ti_type = Income\<rparr>"

text \<open>
  States and ledgers: one expense of 30 on Food with a Food budget that has spent 30;
  a Food budget with spent 50 beside a Rent budget; a ledger with a Rent expense of 20
  and Food expenses of 50 and 30; the state reached from the empty one when the insert of
  a Food expense of 50 has resolved; the doubles written \<^verbatim>\<open>0.1\<close>, \<^verbatim>\<open>0.2\<close> and \<^verbatim>\<open>0.3\<close> as three Food expenses;
  a ledger that mixes a Food expense, an expense on \<^verbatim>\<open>food\<close> in lower case and a Food
  income.
\<close>

definition foodState :: State where
  "foodState = store [expenseOf ''t1'' (binary64 30 0) ''Food'']
                     [budgetOf ''b1'' ''Food'' (binary64 30 0)]"

definition toRent :: TransactionPartial where
  "toRent = \<lparr>tp_id = None, tp_amount = Some (binary64 10 0), tp_category = Some ''Rent'',
             tp_date = None, tp_description = None, tp_type = None\<rparr>"

definition twoBudgets :: State where
  "twoBudgets = store [] [budgetOf ''b1'' ''Food'' (binary64 50 0),
                          budgetOf ''b2'' ''Rent'' (binary64 700 0)]"

definition foodBudgetInput :: BudgetInput where
  "foodBudgetInput = \<lparr>bi_category = ''Food'', bi_limit = binary64 200 0, bi_period = Monthly\<rparr>"

definition threeExpenses :: "Transaction list" where
  "threeExpenses = [expenseOf ''t1'' (binary64 20 0) ''Rent'',
                    expenseOf ''t2'' (binary64 50 0) ''Food'',
                    expenseOf ''t3'' (binary64 30 0) ''Food'']"

definition afterExpense :: State where
  "afterExpense =
     fst (addTransaction accepting (signedIn (store [] []))
            (expenseInput (binary64 50 0) ''Food'') (store [] []))"

definition tenths :: "Transaction list" where
  "tenths = [expenseOf ''a'' (binary64 7205759403792794 (- 56)) ''Food'',
             expenseOf ''b'' (binary64 7205759403792794 (- 55)) ''Food'',
             expenseOf ''c'' (binary64 5404319552844595 (- 54)) ''Food'']"

definition mixedLedger :: "Transaction list" where
  "mixedLedger = [expenseOf ''t1'' (binary64 50 0) ''Food'',
                  expenseOf ''t2'' (binary64 20 0) ''food'',
                  (expenseOf ''t3'' (binary64 100 0) ''Food'')\<lparr>t_type := Income\<rparr>]"

definition tidyBudget :: BudgetPartial where
  "tidyBudget = \<lparr>bp_id = None, bp_category = None, bp_limit = Some (binary64 300 0),
                 bp_spent = None, bp_period = None\<rparr>"

section \<open>Properties of the number model\<close>

text \<open>
  Rounding to 53 bits does not depend on the scale: the low-order zero bits of a
  multiple of \<open>2^c\<close> pass through it. So the sum of two doubles can be computed on
  their significands, at the smaller of the two exponents.
\<close>

lemma round53_zero: "round53 0 = 0"
  by (simp add: round53_def)

lemma round53_small:
  assumes "bitlen \<bar>n\<bar> \<le> 53"
  shows "round53 n = n"
proof -
  have "nat (bitlen \<bar>n\<bar> - 53) = 0" using assms by simp
  then show ?thesis
    by (simp add: round53_def Let_def sgn_mult_abs)
qed

lemma div_mod_shift:
  fixes a :: int
  shows "(a * 2 ^ c) div 2 ^ (k + c) = a div 2 ^ k"
    and "(a * 2 ^ c) mod 2 ^ (k + c) = (a mod 2 ^ k) * 2 ^ c"
  by (simp_all add: power_add mult.commute)

lemma round53_shift: "round53 (n * 2 ^ c) = round53 n * 2 ^ c"
proof (cases "n = 0")
  case True
  then show ?thesis by (simp add: round53_zero)
next
  case False
  define a where "a = \<bar>n\<bar>"
  have apos: "0 < a" using False by (simp add: a_def)
  have abs_eq: "\<bar>n * 2 ^ c\<bar> = a * 2 ^ c" by (simp add: a_def abs_mult)
  have bl: "bitlen (a * 2 ^ c) = bitlen a + int c" using apos by simp
  have sg: "sgn (n * 2 ^ c) = sgn n" by (simp add: sgn_mult)
  show ?thesis
  proof (cases "53 \<le> bitlen a")
    case True
    define k where "k = nat (bitlen a - 53)"
    have k': "nat (bitlen (a * 2 ^ c) - 53) = k + c"
      using True by (simp add: bl k_def nat_add_distrib)
    have c1: "((2::int) ^ (k + c) < 2 * (a mod 2 ^ k * 2 ^ c)) = (2 ^ k < 2 * (a mod 2 ^ k))"
      by (simp add: power_add)
    have c2: "(2 * (a mod 2 ^ k * 2 ^ c) = (2::int) ^ (k + c)) = (2 * (a mod 2 ^ k) = 2 ^ k)"
      by (simp add: power_add)
    show ?thesis
      unfolding round53_def Let_def abs_eq sg k' a_def[symmetric] k_def[symmetric]
        div_mod_shift c1 c2
      by (simp add: power_add mult.assoc)
  next
    case False
    then have small: "bitlen \<bar>n\<bar> \<le> 53" by (simp add: a_def)
    define k where "k = nat (bitlen (a * 2 ^ c) - 53)"
    have kc: "k \<le> c" using False by (simp add: k_def bl)
    then obtain d where d: "c = d + k" by (metis le_add_diff_inverse2)
    have dv: "(a * 2 ^ c) div 2 ^ k = a * 2 ^ d" "(a * 2 ^ c) mod 2 ^ k = 0"
      by (simp_all add: d power_add)
    have "round53 (n * 2 ^ c) = sgn n * (a * 2 ^ d * 2 ^ k)"
      unfolding round53_def Let_def abs_eq sg k_def[symmetric] dv by simp
    also have "\<dots> = n * 2 ^ c"
      by (simp add: d power_add a_def mult.assoc[symmetric] sgn_mult_abs)
    finally show ?thesis by (simp add: round53_small[OF small])
  qed
qed

lemma roundTiesToEven_shift:
  assumes "\<bar>round53 n\<bar> < 2 ^ w" "w + c \<le> 2098"
  shows "roundTiesToEven (n * 2 ^ c) = Finite (round53 n * 2 ^ c)"
proof -
  have "\<bar>round53 n\<bar> * 2 ^ c < 2 ^ w * (2::int) ^ c"
    using assms(1) by simp
  also have "\<dots> = 2 ^ (w + c)" by (simp add: power_add)
  also have "\<dots> \<le> (2::int) ^ 2098"
    using assms(2) by (intro power_increasing) simp_all
  finally have "\<bar>round53 n * 2 ^ c\<bar> < 2 ^ 2098" by (simp add: abs_mult)
  then show ?thesis
    by (simp add: roundTiesToEven_def round53_shift Let_def del: power_numeral)
qed

lemma binary64_plus:
  assumes "- 1074 \<le> e" "e \<le> e1" "e \<le> e2"
    and "round53 (m1 * 2 ^ nat (e1 - e) + m2 * 2 ^ nat (e2 - e)) = r"
    and "\<bar>r\<bar> < 2 ^ w" "e + int w \<le> 1024"
  shows "binary64 m1 e1 + binary64 m2 e2 = binary64 r e"
proof -
  define c where "c = nat (e + 1074)"
  have c1: "nat (e1 + 1074) = nat (e1 - e) + c" and c2: "nat (e2 + 1074) = nat (e2 - e) + c"
    using assms(1-3) by (simp_all add: c_def)
  have cb: "w + c \<le> 2098" using assms(1,6) by (simp add: c_def)
  have "m1 * 2 ^ nat (e1 + 1074) + m2 * 2 ^ nat (e2 + 1074) =
        (m1 * 2 ^ nat (e1 - e) + m2 * 2 ^ nat (e2 - e)) * 2 ^ c"
    by (simp add: c1 c2 power_add distrib_right mult.assoc)
  then show ?thesis
    using roundTiesToEven_shift[of "m1 * 2 ^ nat (e1 - e) + m2 * 2 ^ nat (e2 - e)" w c] assms(4,5) cb
    by (simp add: plus_number_def binary64_def c_def)
qed

lemma zero_binary64: "0 = binary64 0 e"
  by (simp add: zero_number_def binary64_def)

lemma binary64_inject:
  "(binary64 m e = binary64 m' e) = (m = m')"
  by (simp add: binary64_def)

lemma binary64_rescale:
  assumes "- 1074 \<le> e"
  shows "binary64 (m * 2 ^ d) e = binary64 m (e + int d)"
proof -
  have "nat (e + int d + 1074) = d + nat (e + 1074)" using assms by simp
  then show ?thesis by (simp add: binary64_def power_add mult.assoc)
qed

text \<open>
  Whole amounts add exactly as long as the sum stays below \<open>2^53\<close>, and so does a
  left-to-right sum of them.
\<close>

lemma isWhole_binary64: "isWhole (binary64 (int k) 0)"
  by (simp add: isWhole_def binary64_def)

lemma wholeValue_binary64: "wholeValue (binary64 (int k) 0) = k"
  by (simp add: wholeValue_def binary64_def)

lemma isWhole_eq:
  assumes "isWhole x"
  shows "x = binary64 (int (wholeValue x)) 0"
proof (cases x)
  case (Finite n)
  with assms have n: "0 \<le> n" "n mod 2 ^ 1074 = 0" by (simp_all add: isWhole_def)
  then have "0 \<le> n div 2 ^ 1074" by (simp add: pos_imp_zdiv_nonneg_iff)
  moreover have "n div 2 ^ 1074 * 2 ^ 1074 = n" using n(2) by (simp add: mod_0_imp_dvd)
  ultimately show ?thesis using Finite by (simp add: wholeValue_def binary64_def del: power_numeral)
qed (use assms in \<open>simp_all add: isWhole_def\<close>)

lemma whole_plus:
  assumes "a + b < 2 ^ 53"
  shows "binary64 (int a) 0 + binary64 (int b) 0 = binary64 (int (a + b)) 0"
proof (rule binary64_plus[where w = 53])
  have "int a + int b < 2 ^ 53" using assms by (metis of_nat_add of_nat_less_numeral_power_cancel_iff)
  then have "bitlen \<bar>int a + int b\<bar> \<le> 53" by (simp add: bitlen_le_iff_power)
  then show "round53 (int a * 2 ^ nat (0 - 0) + int b * 2 ^ nat (0 - 0)) = int (a + b)"
    by (simp add: round53_small)
  show "\<bar>int (a + b)\<bar> < 2 ^ 53" using assms by (metis abs_of_nat of_nat_less_numeral_power_cancel_iff)
qed simp_all

lemma foldl_whole:
  assumes "\<forall>x\<in>set xs. isWhole x" "a + sum_list (map wholeValue xs) < 2 ^ 53"
  shows "foldl (+) (binary64 (int a) 0) xs = binary64 (int (a + sum_list (map wholeValue xs))) 0"
  using assms
proof (induction xs arbitrary: a)
  case Nil
  then show ?case by simp
next
  case (Cons x xs)
  have x: "x = binary64 (int (wholeValue x)) 0" using Cons.prems(1) by (simp add: isWhole_eq)
  have "a + wholeValue x < 2 ^ 53" using Cons.prems(2) by simp
  then have step: "binary64 (int a) 0 + x = binary64 (int (a + wholeValue x)) 0"
    using whole_plus[of a "wholeValue x"] x by simp
  have "foldl (+) (binary64 (int (a + wholeValue x)) 0) xs =
        binary64 (int (a + wholeValue x + sum_list (map wholeValue xs))) 0"
    using Cons.prems by (intro Cons.IH) (simp_all add: add.assoc)
  then show ?case by (simp add: step add.assoc)
qed

lemma isWhole_numeral: "isWhole (binary64 (numeral k) 0)"
  using isWhole_binary64[of "numeral k"] by simp

lemma wholeValue_numeral: "wholeValue (binary64 (numeral k) 0) = numeral k"
  using wholeValue_binary64[of "numeral k"] by simp

lemma zero_plus_numeral: "binary64 0 0 + binary64 (numeral k) 0 = binary64 (numeral k) 0"
  if "(numeral k :: nat) < 2 ^ 53"
  using whole_plus[of 0 "numeral k"] that by simp

lemma numeral_plus_numeral:
  "binary64 (numeral a) 0 + binary64 (numeral b) 0 = binary64 (numeral (a + b)) 0"
  if "(numeral a + numeral b :: nat) < 2 ^ 53"
  using whole_plus[of "numeral a" "numeral b"] that by simp

text \<open>
  The sums of \<^verbatim>\<open>0.1\<close>, \<^verbatim>\<open>0.2\<close> and \<^verbatim>\<open>0.3\<close> are not exact: \<^verbatim>\<open>0.1 + 0.2\<close> is the double
  \<^verbatim>\<open>0.30000000000000004\<close>.
\<close>

lemma tenth_plus_fifth:
  "binary64 7205759403792794 (- 56) + binary64 7205759403792794 (- 55) =
   binary64 5404319552844596 (- 54)"
proof -
  have "binary64 7205759403792794 (- 56) + binary64 7205759403792794 (- 55) =
        binary64 (5404319552844596 * 2 ^ 2) (- 56)"
  proof (rule binary64_plus[where w = 55])
    show "round53 (7205759403792794 * 2 ^ nat (- 56 - (- 56)) +
                   7205759403792794 * 2 ^ nat (- 55 - (- 56))) = 5404319552844596 * 2 ^ 2"
      by code_simp
  qed simp_all
  also have "\<dots> = binary64 5404319552844596 (- 54)"
    by (simp only: binary64_rescale) simp
  finally show ?thesis .
qed

section \<open>Properties of the provider's functions\<close>

subsection \<open>The calculator\<close>

lemma calculateSpentAmount_Nil: "calculateSpentAmount [] category = 0"
  by (simp add: calculateSpentAmount_def)

lemma calculateSpentAmount_snoc:
  "calculateSpentAmount (ledger @ [tr]) category =
     (if t_category tr = category \<and> t_type tr = Expense
      then calculateSpentAmount ledger category + t_amount tr
      else calculateSpentAmount ledger category)"
  by (simp add: calculateSpentAmount_def)

lemma calculateSpentAmount_no_match:
  assumes "\<forall>tr\<in>set ledger. \<not> (t_category tr = category \<and> t_type tr = Expense)"
  shows "calculateSpentAmount ledger category = 0"
proof -
  have "filter (\<lambda>tr. t_category tr = category \<and> t_type tr = Expense) ledger = []"
    using assms by (simp add: filter_empty_conv)
  then show ?thesis by (simp add: calculateSpentAmount_def)
qed

lemma calculateSpentAmount_whole:
  assumes "\<forall>tr\<in>set ledger. isWhole (t_amount tr)"
    and "sum_list (map (\<lambda>tr. wholeValue (t_amount tr)) ledger) < 2 ^ 53"
  shows "calculateSpentAmount ledger category =
         binary64 (int (sum_list (map (\<lambda>tr. wholeValue (t_amount tr))
           (filter (\<lambda>tr. t_category tr = category \<and> t_type tr = Expense) ledger)))) 0"
proof -
  let ?P = "\<lambda>tr. t_category tr = category \<and> t_type tr = Expense"
  let ?xs = "map t_amount (filter ?P ledger)"
  have fold: "calculateSpentAmount ledger category = foldl (+) (binary64 (int 0) 0) ?xs"
    by (simp add: calculateSpentAmount_def foldl_map zero_binary64[of 0])
  have whole: "\<forall>x\<in>set ?xs. isWhole x" using assms(1) by auto
  have "sum_list (map wholeValue ?xs) \<le> sum_list (map (\<lambda>tr. wholeValue (t_amount tr)) ledger)"
    by (simp add: comp_def sum_list_filter_le_nat)
  then have "0 + sum_list (map wholeValue ?xs) < 2 ^ 53" using assms(2) by simp
  from foldl_whole[OF whole this] show ?thesis by (simp add: fold comp_def)
qed

lemma whole_sum_perm:
  assumes "mset ledger' = mset ledger"
  shows "sum_list (map f (filter P ledger')) = (sum_list (map f (filter P ledger)) :: nat)"
proof -
  have "mset (map f (filter P ledger')) = mset (map f (filter P ledger))"
    using assms by (metis mset_filter mset_map)
  then show ?thesis by (metis sum_mset_sum_list)
qed

lemma tenths_forward:
  "calculateSpentAmount tenths ''Food'' = binary64 5404319552844596 (- 53)"
proof -
  have a: "binary64 0 (- 56) + binary64 7205759403792794 (- 56) =
           binary64 7205759403792794 (- 56)"
    by (rule binary64_plus[where w = 53]) (simp_all, code_simp)
  have "binary64 5404319552844596 (- 54) + binary64 5404319552844595 (- 54) =
        binary64 (5404319552844596 * 2 ^ 1) (- 54)"
    by (rule binary64_plus[where w = 54]) (simp_all, code_simp)
  also have "\<dots> = binary64 5404319552844596 (- 53)"
    by (simp only: binary64_rescale) simp
  finally have c: "binary64 5404319552844596 (- 54) + binary64 5404319552844595 (- 54) =
      binary64 5404319552844596 (- 53)" .
  show ?thesis
    by (simp add: calculateSpentAmount_def tenths_def expenseOf_def zero_binary64[of "- 56"]
        a tenth_plus_fifth c)
qed

lemma tenths_backward:
  "calculateSpentAmount (rev tenths) ''Food'' = binary64 5404319552844595 (- 53)"
proof -
  have a: "binary64 0 (- 54) + binary64 5404319552844595 (- 54) =
           binary64 5404319552844595 (- 54)"
    by (rule binary64_plus[where w = 53]) (simp_all, code_simp)
  have "binary64 5404319552844595 (- 54) + binary64 7205759403792794 (- 55) =
        binary64 (1 * 2 ^ 54) (- 55)"
    by (rule binary64_plus[where w = 55]) (simp_all, code_simp)
  also have "\<dots> = binary64 1 (- 1)"
    by (simp only: binary64_rescale) simp
  finally have b: "binary64 5404319552844595 (- 54) + binary64 7205759403792794 (- 55) =
      binary64 1 (- 1)" .
  have "binary64 1 (- 1) + binary64 7205759403792794 (- 56) =
        binary64 (5404319552844595 * 2 ^ 3) (- 56)"
    by (rule binary64_plus[where w = 56]) (simp_all, code_simp)
  also have "\<dots> = binary64 5404319552844595 (- 53)"
    by (simp only: binary64_rescale) simp
  finally have c: "binary64 1 (- 1) + binary64 7205759403792794 (- 56) =
      binary64 5404319552844595 (- 53)" .
  show ?thesis
    by (simp add: calculateSpentAmount_def tenths_def expenseOf_def zero_binary64[of "- 54"]
        a b c)
qed

text \<open>
  Against the exact sum: the calculator returns it when the matching amounts are whole
  and total less than \<open>2^53\<close>; on \<^verbatim>\<open>0.1\<close>, \<^verbatim>\<open>0.2\<close>, \<^verbatim>\<open>0.3\<close> the exact sum is not a
  double, and its nearest double is \<^verbatim>\<open>0.6\<close>.
\<close>

lemma exactAmount_whole:
  assumes "isWhole x"
  shows "exactAmount x = int (wholeValue x) * 2 ^ 1074"
proof (cases x)
  case (Finite n)
  with assms have n: "0 \<le> n" "n mod 2 ^ 1074 = 0" by (simp_all add: isWhole_def)
  then have "0 \<le> n div 2 ^ 1074" by (simp add: pos_imp_zdiv_nonneg_iff)
  moreover have "n div 2 ^ 1074 * 2 ^ 1074 = n" using n(2) by (simp add: mod_0_imp_dvd)
  ultimately show ?thesis using Finite
    by (simp add: wholeValue_def exactAmount_def del: power_numeral)
qed (use assms in \<open>simp_all add: isWhole_def\<close>)

lemma exact_sum_whole:
  assumes "\<forall>x\<in>set xs. isWhole (t_amount x)"
  shows "sum_list (map (\<lambda>tr. exactAmount (t_amount tr)) xs) =
         int (sum_list (map (\<lambda>tr. wholeValue (t_amount tr)) xs)) * 2 ^ 1074"
  using assms
  by (induction xs) (simp_all add: exactAmount_whole distrib_right del: power_numeral)

lemma calculateSpentAmount_filter:
  "calculateSpentAmount (filter (\<lambda>tr. t_category tr = category \<and> t_type tr = Expense) ledger)
     category = calculateSpentAmount ledger category"
  by (simp add: calculateSpentAmount_def)

lemma calculateSpentAmount_exact:
  assumes "\<forall>tr\<in>set ledger. t_category tr = category \<and> t_type tr = Expense \<longrightarrow>
             isWhole (t_amount tr)"
    and "sum_list (map (\<lambda>tr. wholeValue (t_amount tr))
           (filter (\<lambda>tr. t_category tr = category \<and> t_type tr = Expense) ledger)) < 2 ^ 53"
  shows "calculateSpentAmount ledger category = Finite (computeSpent_spec ledger category)"
proof -
  let ?m = "filter (\<lambda>tr. t_category tr = category \<and> t_type tr = Expense) ledger"
  have whole: "\<forall>tr\<in>set ?m. isWhole (t_amount tr)" using assms(1) by simp
  have "calculateSpentAmount ?m category =
        binary64 (int (sum_list (map (\<lambda>tr. wholeValue (t_amount tr))
          (filter (\<lambda>tr. t_category tr = category \<and> t_type tr = Expense) ?m)))) 0"
    using whole assms(2) by (intro calculateSpentAmount_whole) simp_all
  then have "calculateSpentAmount ledger category =
        binary64 (int (sum_list (map (\<lambda>tr. wholeValue (t_amount tr)) ?m))) 0"
    by (simp add: calculateSpentAmount_filter)
  also have "\<dots> = Finite (sum_list (map (\<lambda>tr. exactAmount (t_amount tr)) ?m))"
    by (simp add: binary64_def exact_sum_whole[OF whole] del: power_numeral)
  also have "?m = filter (\<lambda>tr. t_type tr = Expense \<and> t_category tr = category) ledger"
    by (simp add: conj_commute)
  finally show ?thesis by (simp add: computeSpent_spec_def)
qed

lemma exact_tenths: "computeSpent_spec tenths ''Food'' = 43234556422756762 * 2 ^ 1018"
  by (simp add: computeSpent_spec_def tenths_def expenseOf_def exactAmount_def binary64_def)

lemma rounded_tenths:
  "roundTiesToEven (43234556422756762 * 2 ^ 1018) = binary64 5404319552844595 (- 53)"
proof -
  have r: "round53 43234556422756762 = 5404319552844595 * 2 ^ 3" by code_simp
  have "\<bar>round53 43234556422756762\<bar> < 2 ^ 56" by (simp add: r)
  then have "roundTiesToEven (43234556422756762 * 2 ^ 1018) =
             Finite (round53 43234556422756762 * 2 ^ 1018)"
    by (rule roundTiesToEven_shift) simp
  also have "\<dots> = binary64 (5404319552844595 * 2 ^ 3) (- 56)"
    by (simp add: r binary64_def)
  also have "\<dots> = binary64 5404319552844595 (- 53)"
    by (simp only: binary64_rescale) simp
  finally show ?thesis .
qed

lemma afterExpense_eq:
  "afterExpense =
     store [\<lparr>t_id = ''new'', t_amount = binary64 50 0, t_category = ''Food'',
             t_date = ''2024-01-05'', t_description = ''lunch'', t_type = Expense\<rparr>] []"
  by (simp add: afterExpense_def addTransaction_def signedIn_def store_def expenseInput_def
      toTransaction_def orElse_def updateBudgetsAfterTransaction_def Let_def)

subsection \<open>What the recomputation reads\<close>

text \<open>
  \<^verbatim>\<open>recalculateBudgets\<close> maps over the \<^verbatim>\<open>budgets\<close> of its render and sums the
  \<^verbatim>\<open>transactions\<close> of its render; the state that \<^verbatim>\<open>setTransactions\<close> has just changed
  is not what it reads.
\<close>

lemma recalculateBudgets_budgets:
  assumes "isAuthenticated rd" "user rd = Some u"
  shows "budgets (fst (recalculateBudgets remote rd s)) =
         map (\<lambda>budget. budget\<lparr>b_spent :=
                calculateSpentAmount (transactions (rendered rd)) (b_category budget)\<rparr>)
           (budgets (rendered rd))"
    and "transactions (fst (recalculateBudgets remote rd s)) = transactions s"
  using assms by (simp_all add: recalculateBudgets_def Let_def case_prod_beta)

lemma recalculateBudgets_transactions:
  "transactions (fst (recalculateBudgets remote rd s)) = transactions s"
  by (simp add: recalculateBudgets_def Let_def case_prod_beta)

lemma deleteTransaction_budgets:
  assumes "isAuthenticated rd" "user rd = Some u"
    and "remote (DeleteTransaction ident) = Done"
  shows "budgets (fst (deleteTransaction remote rd ident s)) =
         map (\<lambda>budget. budget\<lparr>b_spent :=
                calculateSpentAmount (transactions (rendered rd)) (b_category budget)\<rparr>)
           (budgets (rendered rd))"
    and "transactions (fst (deleteTransaction remote rd ident s)) =
         filter (\<lambda>tr. t_id tr \<noteq> ident) (transactions s)"
  using assms
  by (simp_all add: deleteTransaction_def Let_def case_prod_beta recalculateBudgets_budgets)

lemma updateTransaction_budgets:
  assumes "isAuthenticated rd" "user rd = Some u"
    and "remote (UpdateTransaction ident (tp_amount p) (tp_category p) (tp_date p)
           (tp_description p) (tp_type p)) = Done"
  shows "budgets (fst (updateTransaction remote rd ident p s)) =
         map (\<lambda>budget. budget\<lparr>b_spent :=
                calculateSpentAmount (transactions (rendered rd)) (b_category budget)\<rparr>)
           (budgets (rendered rd))"
    and "transactions (fst (updateTransaction remote rd ident p s)) =
         map (\<lambda>tr. if t_id tr = ident then spreadTransaction tr p else tr) (transactions s)"
  using assms
  by (simp_all add: updateTransaction_def Let_def case_prod_beta recalculateBudgets_budgets)

lemma updateBudgetsAfterTransaction_budgets:
  assumes "isAuthenticated rd" "user rd = Some u"
    and "\<forall>spent e. remote (UpdateSpentByCategory category spent) \<noteq> Rejected e"
  shows "fst (snd (updateBudgetsAfterTransaction remote rd category amount s)) =
         s\<lparr>budgets := map (\<lambda>budget. if b_category budget = category
                                     then budget\<lparr>b_spent := b_spent budget + amount\<rparr>
                                     else budget) (budgets s)\<rparr>"
  using assms
  by (simp add: updateBudgetsAfterTransaction_def Let_def split: option.splits Reply.splits)

lemma refreshData_selects:
  assumes "isAuthenticated rd" "user rd = Some u"
  shows "RemoteCall SelectTransactions \<in> set (snd (refreshData remote rd s))"
  using assms by (simp add: refreshData_def Let_def split: option.splits)

subsection \<open>Identifiers that match nothing, and calls without a user\<close>

lemma map_unknown_id:
  assumes "\<forall>x\<in>set xs. key x \<noteq> ident"
  shows "map (\<lambda>x. if key x = ident then f x else x) xs = xs"
  using assms by (induction xs) simp_all

lemma filter_unknown_id:
  assumes "\<forall>x\<in>set xs. key x \<noteq> ident"
  shows "filter (\<lambda>x. key x \<noteq> ident) xs = xs"
  using assms by (induction xs) simp_all

lemma updateTransaction_unknown_id:
  assumes "\<forall>tr\<in>set (transactions s). t_id tr \<noteq> ident"
  shows "transactions (fst (updateTransaction remote rd ident p s)) = transactions s"
  using map_unknown_id[OF assms]
  by (simp add: updateTransaction_def Let_def case_prod_beta recalculateBudgets_transactions
      split: option.splits bool.splits Reply.splits)

lemma deleteTransaction_unknown_id:
  assumes "\<forall>tr\<in>set (transactions s). t_id tr \<noteq> ident"
  shows "transactions (fst (deleteTransaction remote rd ident s)) = transactions s"
  using filter_unknown_id[OF assms]
  by (simp add: deleteTransaction_def Let_def case_prod_beta recalculateBudgets_transactions
      split: option.splits bool.splits Reply.splits)

lemma updateBudget_unknown_id:
  assumes "\<forall>b\<in>set (budgets s). b_id b \<noteq> ident"
  shows "budgets (fst (updateBudget remote rd ident p s)) = budgets s"
  using map_unknown_id[OF assms]
  by (simp add: updateBudget_def Let_def split: option.splits bool.splits Reply.splits)

lemma deleteBudget_unknown_id:
  assumes "\<forall>b\<in>set (budgets s). b_id b \<noteq> ident"
  shows "budgets (fst (deleteBudget remote rd ident s)) = budgets s"
  using filter_unknown_id[OF assms]
  by (simp add: deleteBudget_def Let_def split: option.splits bool.splits Reply.splits)

lemma persistSpent_accepted:
  assumes "\<forall>req e. remote req \<noteq> Rejected e"
  shows "snd (persistSpent remote bs) \<and> filter isError (fst (persistSpent remote bs)) = []"
  using assms
  by (induction bs) (simp_all add: Let_def case_prod_beta isError_def split: Reply.splits)

lemma recalculateBudgets_accepted:
  assumes "\<forall>req e. remote req \<noteq> Rejected e"
  shows "filter isError (snd (recalculateBudgets remote rd s)) = []"
  using persistSpent_accepted[OF assms]
  by (simp add: recalculateBudgets_def Let_def case_prod_beta)

lemma no_error_when_accepted:
  assumes "\<forall>req e. remote req \<noteq> Rejected e"
  shows "filter isError (snd (updateTransaction remote rd ident tp s)) = []"
    and "filter isError (snd (deleteTransaction remote rd ident s)) = []"
    and "filter isError (snd (updateBudget remote rd ident bp s)) = []"
    and "filter isError (snd (deleteBudget remote rd ident s)) = []"
  using assms recalculateBudgets_accepted[OF assms]
  by (simp_all add: updateTransaction_def deleteTransaction_def updateBudget_def deleteBudget_def
      Let_def case_prod_beta isError_def split: option.splits bool.splits Reply.splits)

lemma accepting_never_rejects: "accepting req \<noteq> Rejected e"
  by (cases req) simp_all

lemma signed_out:
  assumes "\<not> isAuthenticated rd \<or> user rd = None"
  shows "(case (isAuthenticated rd, user rd) of (True, Some u) \<Rightarrow> f u | _ \<Rightarrow> d) = d"
  using assms by (auto split: bool.splits option.splits)

section \<open>The claims\<close>

subsection \<open>C1: the full recompute after an update or a delete\<close>

text \<open>
  Claim C1: after every update or delete of a transaction, every budget's cached spent
  equals \<open>computeSpent\<close> of the ledger that results from the update or delete.

  The code does not do this. Called from the latest render, with one Food expense of 30
  in the ledger and a Food budget with spent 30: deleting the expense leaves an empty
  ledger and a budget whose spent is still 30, where the sum over the resulting ledger is
  0; updating the expense to 10 on Rent leaves the Food budget at 30 as well, where the
  resulting ledger has no Food expense. The recomputation sums the ledger of the render
  the call was made from, the one before the mutation.
\<close>

theorem C1_recompute_uses_ledger_before_mutation:
  "transactions (fst (deleteTransaction accepting (signedIn foodState) ''t1'' foodState)) = []
   \<and> budgets (fst (deleteTransaction accepting (signedIn foodState) ''t1'' foodState)) =
       [budgetOf ''b1'' ''Food'' (binary64 30 0)]
   \<and> calculateSpentAmount [] ''Food'' = binary64 0 0
   \<and> transactions (fst (updateTransaction accepting (signedIn foodState) ''t1'' toRent foodState)) =
       [expenseOf ''t1'' (binary64 10 0) ''Rent'']
   \<and> budgets (fst (updateTransaction accepting (signedIn foodState) ''t1'' toRent foodState)) =
       [budgetOf ''b1'' ''Food'' (binary64 30 0)]
   \<and> calculateSpentAmount [expenseOf ''t1'' (binary64 10 0) ''Rent''] ''Food'' = binary64 0 0
   \<and> binary64 30 0 \<noteq> binary64 0 0"
  by (simp add: deleteTransaction_budgets[where u = alice] updateTransaction_budgets[where u = alice]
      signedIn_def foodState_def store_def expenseOf_def toRent_def spreadTransaction_def orElse_def
      budgetOf_def calculateSpentAmount_def zero_plus_numeral binary64_inject zero_binary64[of 0])

subsection \<open>C2: the incremental adjustment after an add\<close>

text \<open>
  Claim C2: after a single expense add, whose insert the remote store accepted and whose
  spent update it did not reject, every budget of the new transaction's category has the
  new amount added to its current spent, and every budget of another category is
  unchanged; the budget list keeps its length and order.
\<close>

theorem C2_add_adjusts_matching_budget:
  assumes "isAuthenticated rd" and "user rd = Some u"
    and "ti_type tx = Expense"
    and "remote (InsertTransaction (u_id u) tx) = TransactionData d" and "tr_date d = Some day"
    and "\<forall>spent e. remote (UpdateSpentByCategory (ti_category tx) spent) \<noteq> Rejected e"
  shows "length (budgets (fst (addTransaction remote rd tx s))) = length (budgets s) \<and>
         (\<forall>i<length (budgets s).
            budgets (fst (addTransaction remote rd tx s)) ! i =
              (if b_category (budgets s ! i) = ti_category tx
               then (budgets s ! i)\<lparr>b_spent := b_spent (budgets s ! i) + ti_amount tx\<rparr>
               else budgets s ! i))"
proof -
  have "budgets (fst (addTransaction remote rd tx s)) =
        map (\<lambda>budget. if b_category budget = ti_category tx
                       then budget\<lparr>b_spent := b_spent budget + ti_amount tx\<rparr>
                       else budget) (budgets s)"
    using assms(1-5) updateBudgetsAfterTransaction_budgets[OF assms(1,2,6)]
    by (simp add: addTransaction_def toTransaction_def Let_def case_prod_beta)
  then show ?thesis by simp
qed

text \<open>
  Witness of C2, the scenario of the claim: a Food budget with spent 50 and a Rent
  budget; an added Food expense of 30 makes the Food budget's spent 80 and leaves the
  Rent budget as it was.
\<close>

theorem C2_food_50_plus_30:
  "budgets (fst (addTransaction accepting (signedIn twoBudgets) (expenseInput (binary64 30 0) ''Food'')
      twoBudgets)) ! 0 = budgetOf ''b1'' ''Food'' (binary64 80 0) \<and>
   budgets (fst (addTransaction accepting (signedIn twoBudgets) (expenseInput (binary64 30 0) ''Food'')
      twoBudgets)) ! 1 = budgetOf ''b2'' ''Rent'' (binary64 700 0)"
  using C2_add_adjusts_matching_budget[of "signedIn twoBudgets" alice
      "expenseInput (binary64 30 0) ''Food''" accepting
      "\<lparr>tr_id = ''new'', tr_amount = binary64 30 0, tr_category = ''Food'',
        tr_date = Some ''2024-01-05'', tr_description = Some ''lunch'', tr_type = Expense\<rparr>"
      "''2024-01-05''" twoBudgets]
  by (simp add: signedIn_def expenseInput_def twoBudgets_def store_def budgetOf_def alice_def
      numeral_plus_numeral)

subsection \<open>C3: a failed remote insert\<close>

text \<open>
  Claim C3 says that when the remote insert of a new transaction fails, the local state
  still shows the added transaction and a full refresh is then triggered.

  Counterexample: with a remote store that rejects the insert, \<^verbatim>\<open>addTransaction\<close>
  returns the state it was given, and its events are the insert, a console error and
  the toast of the failure: nothing was added, no budget was adjusted and no table was
  selected again.
\<close>

theorem C3_failed_insert_changes_nothing:
  "rejecting (InsertTransaction ''u1'' (expenseInput (binary64 30 0) ''Food'')) =
     Rejected ''offline'' \<and>
   addTransaction rejecting (signedIn twoBudgets) (expenseInput (binary64 30 0) ''Food'') twoBudgets =
     (twoBudgets,
      [RemoteCall (InsertTransaction ''u1'' (expenseInput (binary64 30 0) ''Food'')),
       ConsoleError ''Error adding transaction:'',
       Toast ''Failed to add transaction'' ''There was an error saving your transaction'' True]) \<and>
   transactions (fst (addTransaction rejecting (signedIn twoBudgets)
     (expenseInput (binary64 30 0) ''Food'') twoBudgets)) = [] \<and>
   RemoteCall SelectTransactions \<notin> set (snd (addTransaction rejecting (signedIn twoBudgets)
     (expenseInput (binary64 30 0) ''Food'') twoBudgets))"
  by (simp add: addTransaction_def rejecting_def signedIn_def alice_def twoBudgets_def store_def)

text \<open>
  Claim C3 as amended: the insert is awaited before any local change. When the remote
  insert is rejected the state is unchanged, no refresh follows, and the failure is
  logged and shown in a toast. The local-first step with a refresh as fallback is the
  budget adjustment: after an accepted insert of an expense the budgets are adjusted
  locally, and when the remote update of the budget's spent is then rejected a full
  refresh is run on the adjusted state.
\<close>

theorem C3_insert_failure_and_refresh_fallback:
  assumes "isAuthenticated rd" and "user rd = Some u"
  shows "(remote (InsertTransaction (u_id u) tx) = Rejected e \<longrightarrow>
            addTransaction remote rd tx s =
              (s, [RemoteCall (InsertTransaction (u_id u) tx),
                   ConsoleError ''Error adding transaction:'',
                   Toast ''Failed to add transaction''
                     ''There was an error saving your transaction'' True])) \<and>
         (remote (InsertTransaction (u_id u) tx) = TransactionData d \<and>
          toTransaction d = Some t \<and> ti_type tx = Expense \<and>
          find (\<lambda>b. b_category b = ti_category tx) (budgets (rendered rd)) = Some b \<and>
          remote (UpdateSpentByCategory (ti_category tx) (b_spent b + ti_amount tx)) = Rejected e' \<longrightarrow>
            fst (addTransaction remote rd tx s) =
              fst (refreshData remote rd
                (s\<lparr>transactions := t # transactions s,
                   budgets := map (\<lambda>budget. if b_category budget = ti_category tx
                                    then budget\<lparr>b_spent := b_spent budget + ti_amount tx\<rparr>
                                    else budget) (budgets s)\<rparr>)) \<and>
            RemoteCall SelectTransactions \<in> set (snd (addTransaction remote rd tx s)))"
  using assms refreshData_selects[OF assms, of remote]
  by (simp add: addTransaction_def updateBudgetsAfterTransaction_def Let_def case_prod_beta)

text \<open>
  Witness of the amended C3: a rejected insert leaves the state with its two budgets;
  an accepted insert followed by a rejected spent update selects the tables again, and
  the refreshed state is what the remote store holds (here nothing).
\<close>

theorem C3_rejected_insert_and_rejected_spent_update:
  "isAuthenticated (signedIn twoBudgets) \<and> user (signedIn twoBudgets) = Some alice \<and>
   rejecting (InsertTransaction (u_id alice) (expenseInput (binary64 30 0) ''Food'')) =
     Rejected ''offline'' \<and>
   fst (addTransaction rejecting (signedIn twoBudgets) (expenseInput (binary64 30 0) ''Food'')
     twoBudgets) = twoBudgets \<and>
   spentUpdateFails (UpdateSpentByCategory ''Food'' (binary64 50 0 + binary64 30 0)) =
     Rejected ''offline'' \<and>
   fst (addTransaction spentUpdateFails (signedIn twoBudgets)
     (expenseInput (binary64 30 0) ''Food'') twoBudgets) = store [] [] \<and>
   RemoteCall SelectTransactions \<in> set (snd (addTransaction spentUpdateFails (signedIn twoBudgets)
     (expenseInput (binary64 30 0) ''Food'') twoBudgets))"
  using C3_insert_failure_and_refresh_fallback[of "signedIn twoBudgets" alice rejecting
      "expenseInput (binary64 30 0) ''Food''" "''offline''" twoBudgets]
    C3_insert_failure_and_refresh_fallback[of "signedIn twoBudgets" alice spentUpdateFails
      "expenseInput (binary64 30 0) ''Food''" _ twoBudgets
      "\<lparr>tr_id = ''new'', tr_amount = binary64 30 0, tr_category = ''Food'',
        tr_date = Some ''2024-01-05'', tr_description = Some ''lunch'', tr_type = Expense\<rparr>"
      "\<lparr>t_id = ''new'', t_amount = binary64 30 0, t_category = ''Food'',
        t_date = ''2024-01-05'', t_description = ''lunch'', t_type = Expense\<rparr>"
      "budgetOf ''b1'' ''Food'' (binary64 50 0)" "''offline''"]
  by (simp add: signedIn_def rejecting_def spentUpdateFails_def expenseInput_def twoBudgets_def
      store_def budgetOf_def alice_def toTransaction_def orElse_def refreshData_def
      transactionRows_def budgetRows_def categoryRows_def rejected_def)

subsection \<open>C4: the initial spent of a new budget\<close>

text \<open>
  Claim C4 says that a new budget's spent is the sum of the matching expenses of the
  current Ledger Store, never zero or stale.

  Counterexample: from the empty state a Food expense of 50 is submitted, and a Food
  budget is submitted while the insert of the expense is pending; both calls are made
  from the render of the empty state. The insert of the expense resolves first. When the
  insert of the budget resolves, the budget enters a store whose ledger holds the Food
  expense of 50, with the spent 0 that was computed from the ledger of its render.
\<close>

theorem C4_budget_added_while_expense_pending:
  "transactions (fst (addBudget accepting (signedIn (store [] [])) foodBudgetInput afterExpense)) =
     [\<lparr>t_id = ''new'', t_amount = binary64 50 0, t_category = ''Food'',
       t_date = ''2024-01-05'', t_description = ''lunch'', t_type = Expense\<rparr>] \<and>
   budgets (fst (addBudget accepting (signedIn (store [] [])) foodBudgetInput afterExpense)) =
     [budgetOf ''new'' ''Food'' (binary64 0 0)] \<and>
   calculateSpentAmount
     (transactions (fst (addBudget accepting (signedIn (store [] [])) foodBudgetInput afterExpense)))
     ''Food'' = binary64 50 0 \<and>
   binary64 0 0 \<noteq> binary64 50 0"
  by (simp add: afterExpense_eq addBudget_def signedIn_def store_def foodBudgetInput_def
      toBudget_def budgetOf_def calculateSpentAmount_def zero_binary64[of 0] zero_plus_numeral
      binary64_inject Let_def)

text \<open>
  Claim C4 as amended: with a remote store that returns the row it stored, adding a
  budget puts in front of the budget list a budget whose spent is the sum, with the \<^verbatim>\<open>+\<close>
  of numbers from 0 in ledger order, of the amounts of the expenses of the budget's
  category in the ledger of the render the call was made from; it is their exact sum
  when they are whole and total less than \<open>2^53\<close>. When that ledger is the current
  one, as in a call from the latest render with nothing else pending, the new budget's
  spent is the calculator's value on the ledger of the resulting state; a transaction
  that reaches the ledger while the insert is pending is not counted.
\<close>

theorem C4_addBudget_spent_from_rendered_ledger:
  assumes "isAuthenticated rd" and "user rd = Some u"
    and "\<forall>spent. remote (InsertBudget (u_id u) (bi_category budget) (bi_limit budget) spent
             (bi_period budget)) =
           BudgetData \<lparr>br_id = ident, br_category = bi_category budget,
             br_budget_limit = bi_limit budget, br_spent = spent,
             br_period = bi_period budget\<rparr>"
  shows "budgets (fst (addBudget remote rd budget s)) =
           \<lparr>b_id = ident, b_category = bi_category budget, b_limit = bi_limit budget,
            b_spent = foldl (\<lambda>total tr. total + t_amount tr) 0
              (filter (\<lambda>tr. t_category tr = bi_category budget \<and> t_type tr = Expense)
                 (transactions (rendered rd))),
            b_period = bi_period budget\<rparr> # budgets s \<and>
         ((\<forall>tr\<in>set (transactions (rendered rd)).
              t_category tr = bi_category budget \<and> t_type tr = Expense \<longrightarrow>
                isWhole (t_amount tr)) \<and>
          sum_list (map (\<lambda>tr. wholeValue (t_amount tr))
            (filter (\<lambda>tr. t_category tr = bi_category budget \<and> t_type tr = Expense)
               (transactions (rendered rd)))) < 2 ^ 53 \<longrightarrow>
            map b_spent (budgets (fst (addBudget remote rd budget s))) =
              Finite (computeSpent_spec (transactions (rendered rd)) (bi_category budget)) #
              map b_spent (budgets s)) \<and>
         (transactions (rendered rd) = transactions s \<longrightarrow>
            map b_spent (budgets (fst (addBudget remote rd budget s))) =
              calculateSpentAmount (transactions (fst (addBudget remote rd budget s)))
                (bi_category budget) #
              map b_spent (budgets s))"
proof -
  have kept: "transactions (fst (addBudget remote rd budget s)) = transactions s"
    using assms by (simp add: addBudget_def Let_def)
  have added: "budgets (fst (addBudget remote rd budget s)) =
           \<lparr>b_id = ident, b_category = bi_category budget, b_limit = bi_limit budget,
            b_spent = calculateSpentAmount (transactions (rendered rd)) (bi_category budget),
            b_period = bi_period budget\<rparr> # budgets s"
    using assms by (simp add: addBudget_def toBudget_def Let_def)
  show ?thesis
    using calculateSpentAmount_exact[of "transactions (rendered rd)" "bi_category budget"]
    by (simp add: added kept) (simp add: calculateSpentAmount_def)
qed

text \<open>
  Witness of the amended C4: over a ledger with a Rent expense of 20 and Food expenses of
  50 and 30, a new Food budget starts with spent 80.
\<close>

theorem C4_budget_after_three_expenses:
  "budgets (fst (addBudget accepting (signedIn (store threeExpenses [])) foodBudgetInput
     (store threeExpenses []))) = [budgetOf ''new'' ''Food'' (binary64 80 0)] \<and>
   calculateSpentAmount (transactions (fst (addBudget accepting (signedIn (store threeExpenses []))
     foodBudgetInput (store threeExpenses [])))) ''Food'' = binary64 80 0 \<and>
   binary64 80 0 \<noteq> binary64 0 0"
proof -
  have total: "calculateSpentAmount threeExpenses ''Food'' = binary64 80 0"
    by (simp add: calculateSpentAmount_def threeExpenses_def expenseOf_def zero_binary64[of 0]
        zero_plus_numeral numeral_plus_numeral)
  have added: "budgets (fst (addBudget accepting (signedIn (store threeExpenses []))
      foodBudgetInput (store threeExpenses []))) = [budgetOf ''new'' ''Food'' (binary64 80 0)]"
    using C4_addBudget_spent_from_rendered_ledger[of "signedIn (store threeExpenses [])" alice
        accepting foodBudgetInput "''new''" "store threeExpenses []", THEN conjunct1]
      total
    by (simp add: signedIn_def store_def foodBudgetInput_def budgetOf_def alice_def
        calculateSpentAmount_def)
  have kept: "transactions (fst (addBudget accepting (signedIn (store threeExpenses []))
      foodBudgetInput (store threeExpenses []))) = threeExpenses"
    by (simp add: addBudget_def signedIn_def store_def foodBudgetInput_def Let_def)
  show ?thesis
    by (simp add: added kept total binary64_inject)
qed

subsection \<open>C5: what the calculator computes\<close>

text \<open>
  Claim C5 says that for every ledger the result equals the sum of the amounts of the
  matching expenses.

  Counterexample: on the Food expenses \<^verbatim>\<open>0.1\<close>, \<^verbatim>\<open>0.2\<close>, \<^verbatim>\<open>0.3\<close> the calculator returns
  \<^verbatim>\<open>0.6000000000000001\<close>. The exact sum of the three amounts is not that number, and the
  double nearest to the exact sum is \<^verbatim>\<open>0.6\<close>: every addition of the fold rounds.
\<close>

theorem C5_tenths_do_not_add_up:
  "calculateSpentAmount tenths ''Food'' = binary64 5404319552844596 (- 53) \<and>
   computeSpent_spec tenths ''Food'' = 43234556422756762 * 2 ^ 1018 \<and>
   calculateSpentAmount tenths ''Food'' \<noteq> Finite (computeSpent_spec tenths ''Food'') \<and>
   roundTiesToEven (computeSpent_spec tenths ''Food'') = binary64 5404319552844595 (- 53) \<and>
   calculateSpentAmount tenths ''Food'' \<noteq> roundTiesToEven (computeSpent_spec tenths ''Food'')"
proof -
  have "binary64 5404319552844596 (- 53) \<noteq> Finite (43234556422756762 * 2 ^ 1018)"
    by (simp add: binary64_def)
  then show ?thesis
    by (simp add: tenths_forward exact_tenths rounded_tenths binary64_inject del: power_numeral)
qed

text \<open>
  Claim C5 as amended: \<^verbatim>\<open>calculateSpentAmount\<close> adds, with the \<^verbatim>\<open>+\<close> of numbers from 0
  in ledger order, the amounts of exactly the transactions of type expense whose category
  is the given string, compared exactly: it is 0 on the empty ledger, a transaction
  appended to the ledger adds its amount when it is an expense of the category and
  changes nothing otherwise, the transactions that do not match can be dropped, and the
  result is 0 when none matches. It equals the exact sum when the matching amounts are
  whole and total less than \<open>2^53\<close>. The function returns a number and has no state to
  change.
\<close>

theorem C5_calculateSpentAmount_running_sum:
  "calculateSpentAmount [] category = 0 \<and>
   calculateSpentAmount (ledger @ [tr]) category =
     (if t_category tr = category \<and> t_type tr = Expense
      then calculateSpentAmount ledger category + t_amount tr
      else calculateSpentAmount ledger category) \<and>
   calculateSpentAmount (filter (\<lambda>x. t_category x = category \<and> t_type x = Expense) ledger)
     category = calculateSpentAmount ledger category \<and>
   ((\<forall>x\<in>set ledger. \<not> (t_category x = category \<and> t_type x = Expense)) \<longrightarrow>
      calculateSpentAmount ledger category = 0) \<and>
   ((\<forall>x\<in>set ledger. t_category x = category \<and> t_type x = Expense \<longrightarrow> isWhole (t_amount x)) \<and>
    sum_list (map (\<lambda>x. wholeValue (t_amount x))
      (filter (\<lambda>x. t_category x = category \<and> t_type x = Expense) ledger)) < 2 ^ 53 \<longrightarrow>
      calculateSpentAmount ledger category = Finite (computeSpent_spec ledger category))"
  using calculateSpentAmount_Nil[of category] calculateSpentAmount_snoc[of ledger tr category]
    calculateSpentAmount_filter[of category ledger]
    calculateSpentAmount_no_match[of ledger category]
    calculateSpentAmount_exact[of ledger category]
  by blast

text \<open>
  Witness of the amended C5: Food expenses of 50 and 30 sum to 80 beside an expense on
  \<^verbatim>\<open>food\<close> and a Food income, which are left out; \<^verbatim>\<open>food\<close> in lower case gives 20, and
  nothing matches Travel, which gives 0.
\<close>

theorem C5_mixed_ledger_totals:
  "calculateSpentAmount (mixedLedger @ [expenseOf ''t4'' (binary64 30 0) ''Food'']) ''Food'' =
     binary64 80 0 \<and>
   calculateSpentAmount mixedLedger ''Food'' = binary64 50 0 \<and>
   Finite (computeSpent_spec mixedLedger ''Food'') = binary64 50 0 \<and>
   calculateSpentAmount mixedLedger ''food'' = binary64 20 0 \<and>
   calculateSpentAmount mixedLedger ''Travel'' = 0"
proof -
  have whole: "\<And>c. (\<forall>x\<in>set mixedLedger. t_category x = c \<and> t_type x = Expense \<longrightarrow>
        isWhole (t_amount x)) \<and>
      sum_list (map (\<lambda>x. wholeValue (t_amount x))
        (filter (\<lambda>x. t_category x = c \<and> t_type x = Expense) mixedLedger)) < 2 ^ 53"
    by (simp add: mixedLedger_def expenseOf_def isWhole_numeral wholeValue_numeral)
  have none: "\<forall>x\<in>set mixedLedger. \<not> (t_category x = ''Travel'' \<and> t_type x = Expense)"
    by (simp add: mixedLedger_def expenseOf_def)
  have exact: "Finite (computeSpent_spec mixedLedger ''Food'') = binary64 50 0"
      "Finite (computeSpent_spec mixedLedger ''food'') = binary64 20 0"
    by (simp_all add: computeSpent_spec_def mixedLedger_def expenseOf_def exactAmount_def
        binary64_def)
  show ?thesis
    using C5_calculateSpentAmount_running_sum[of "''Food''" mixedLedger
        "expenseOf ''t4'' (binary64 30 0) ''Food''"]
      C5_calculateSpentAmount_running_sum[of "''food''" mixedLedger]
      C5_calculateSpentAmount_running_sum[of "''Travel''" mixedLedger] whole none
    by (simp add: exact expenseOf_def numeral_plus_numeral)
qed

subsection \<open>C6: the order of the ledger\<close>

text \<open>
  Claim C6 says that the result is the same for every permutation of the ledger.

  Counterexample: the Food expenses \<^verbatim>\<open>0.1\<close>, \<^verbatim>\<open>0.2\<close>, \<^verbatim>\<open>0.3\<close> sum to
  \<^verbatim>\<open>0.6000000000000001\<close> in this order and to \<^verbatim>\<open>0.6\<close> in the reverse order: the
  addition of numbers rounds, and is not associative.
\<close>

theorem C6_order_changes_the_sum:
  "mset (rev tenths) = mset tenths \<and>
   calculateSpentAmount tenths ''Food'' = binary64 5404319552844596 (- 53) \<and>
   calculateSpentAmount (rev tenths) ''Food'' = binary64 5404319552844595 (- 53) \<and>
   calculateSpentAmount (rev tenths) ''Food'' \<noteq> calculateSpentAmount tenths ''Food''"
  by (simp add: tenths_forward tenths_backward binary64_inject)

text \<open>
  Claim C6 as amended: when every amount of the ledger is a whole number and the amounts
  total less than \<open>2^53\<close>, the result is the same for every permutation of the ledger.
  (Calling the function again on the same ledger and category gives the same number: it
  is a function of the two.)
\<close>

theorem C6_order_independent_on_whole_amounts:
  assumes "mset ledger' = mset ledger"
    and "\<forall>tr\<in>set ledger. isWhole (t_amount tr)"
    and "sum_list (map (\<lambda>tr. wholeValue (t_amount tr)) ledger) < 2 ^ 53"
  shows "calculateSpentAmount ledger' category = calculateSpentAmount ledger category"
proof -
  have set_eq: "set ledger' = set ledger" using assms(1) by (rule mset_eq_setD)
  have total: "sum_list (map (\<lambda>tr. wholeValue (t_amount tr)) ledger') =
               sum_list (map (\<lambda>tr. wholeValue (t_amount tr)) ledger)"
    using whole_sum_perm[OF assms(1), of _ "\<lambda>tr. True"] by simp
  have "calculateSpentAmount ledger' category =
        binary64 (int (sum_list (map (\<lambda>tr. wholeValue (t_amount tr))
          (filter (\<lambda>tr. t_category tr = category \<and> t_type tr = Expense) ledger')))) 0"
    using assms(2,3) by (intro calculateSpentAmount_whole) (simp_all add: set_eq total)
  also have "\<dots> = calculateSpentAmount ledger category"
    using assms(2,3) by (simp add: calculateSpentAmount_whole whole_sum_perm[OF assms(1)])
  finally show ?thesis .
qed

text \<open>Witness of the amended C6: a ledger of whole amounts and its reverse.\<close>

theorem C6_whole_ledger_reversed:
  "mset (rev (mixedLedger @ [expenseOf ''t4'' (binary64 30 0) ''Food''])) =
     mset (mixedLedger @ [expenseOf ''t4'' (binary64 30 0) ''Food'']) \<and>
   calculateSpentAmount (rev (mixedLedger @ [expenseOf ''t4'' (binary64 30 0) ''Food''])) ''Food'' =
     calculateSpentAmount (mixedLedger @ [expenseOf ''t4'' (binary64 30 0) ''Food'']) ''Food''"
proof -
  have whole: "\<forall>x\<in>set (mixedLedger @ [expenseOf ''t4'' (binary64 30 0) ''Food'']).
      isWhole (t_amount x)"
    by (simp add: mixedLedger_def expenseOf_def isWhole_numeral)
  have bound: "sum_list (map (\<lambda>x. wholeValue (t_amount x))
      (mixedLedger @ [expenseOf ''t4'' (binary64 30 0) ''Food''])) < 2 ^ 53"
    by (simp add: mixedLedger_def expenseOf_def wholeValue_numeral)
  show ?thesis
    using C6_order_independent_on_whole_amounts[of
        "rev (mixedLedger @ [expenseOf ''t4'' (binary64 30 0) ''Food''])"
        "mixedLedger @ [expenseOf ''t4'' (binary64 30 0) ''Food'']" "''Food''"] whole bound
    by simp
qed

subsection \<open>C7: identifiers that match nothing\<close>

text \<open>
  Claim C7: an update or a delete with an identifier that no transaction has leaves the
  transactions unchanged, and likewise for the budgets; and when the remote store rejects
  nothing, none of these calls logs an error or shows a destructive toast.
\<close>

theorem C7_unknown_id_is_silent_noop:
  "((\<forall>tr\<in>set (transactions s). t_id tr \<noteq> ident) \<longrightarrow>
      transactions (fst (updateTransaction remote rd ident tp s)) = transactions s \<and>
      transactions (fst (deleteTransaction remote rd ident s)) = transactions s) \<and>
   ((\<forall>b\<in>set (budgets s). b_id b \<noteq> ident) \<longrightarrow>
      budgets (fst (updateBudget remote rd ident bp s)) = budgets s \<and>
      budgets (fst (deleteBudget remote rd ident s)) = budgets s) \<and>
   ((\<forall>req e. remote req \<noteq> Rejected e) \<longrightarrow>
      filter isError (snd (updateTransaction remote rd ident tp s)) = [] \<and>
      filter isError (snd (deleteTransaction remote rd ident s)) = [] \<and>
      filter isError (snd (updateBudget remote rd ident bp s)) = [] \<and>
      filter isError (snd (deleteBudget remote rd ident s)) = [])"
  by (simp add: updateTransaction_unknown_id deleteTransaction_unknown_id
      updateBudget_unknown_id deleteBudget_unknown_id no_error_when_accepted)

text \<open>Witness of C7: the identifier \<^verbatim>\<open>zz\<close> on a state with one transaction and one budget.\<close>

theorem C7_unknown_id_on_food_state:
  "transactions (fst (updateTransaction accepting (signedIn foodState) ''zz'' toRent foodState)) =
     transactions foodState \<and>
   transactions (fst (deleteTransaction accepting (signedIn foodState) ''zz'' foodState)) =
     transactions foodState \<and>
   budgets (fst (updateBudget accepting (signedIn foodState) ''zz'' tidyBudget foodState)) =
     budgets foodState \<and>
   budgets (fst (deleteBudget accepting (signedIn foodState) ''zz'' foodState)) =
     budgets foodState \<and>
   filter isError (snd (updateTransaction accepting (signedIn foodState) ''zz'' toRent foodState)) = [] \<and>
   filter isError (snd (deleteBudget accepting (signedIn foodState) ''zz'' foodState)) = []"
proof -
  have ids: "(\<forall>tr\<in>set (transactions foodState). t_id tr \<noteq> ''zz'') \<and>
             (\<forall>b\<in>set (budgets foodState). b_id b \<noteq> ''zz'')"
    by (simp add: foodState_def store_def expenseOf_def budgetOf_def)
  show ?thesis
    using C7_unknown_id_is_silent_noop[of foodState "''zz''" accepting "signedIn foodState"
        toRent tidyBudget] ids accepting_never_rejects
    by simp
qed

subsection \<open>C8: calls without an authenticated user\<close>

text \<open>
  Claim C8: without an authenticated user every one of the nine mutation entry points
  returns the state it was given and makes no remote call, logs nothing and shows
  nothing.
\<close>

theorem C8_unauthenticated_noop:
  assumes "\<not> isAuthenticated rd \<or> user rd = None"
  shows "addTransaction remote rd tx s = (s, []) \<and>
         updateTransaction remote rd ident tp s = (s, []) \<and>
         deleteTransaction remote rd ident s = (s, []) \<and>
         addBudget remote rd bi s = (s, []) \<and>
         updateBudget remote rd ident bp s = (s, []) \<and>
         deleteBudget remote rd ident s = (s, []) \<and>
         addCategory remote rd ci s = (s, []) \<and>
         updateCategory remote rd ident cp s = (s, []) \<and>
         deleteCategory remote rd ident s = (s, [])"
  unfolding addTransaction_def updateTransaction_def deleteTransaction_def addBudget_def
      updateBudget_def deleteBudget_def addCategory_def updateCategory_def deleteCategory_def
  by (simp only: signed_out[OF assms])

text \<open>Witness of C8: three of the calls from a signed-out render.\<close>

theorem C8_signed_out_calls:
  "isAuthenticated (signedOut foodState) = False \<and> user (signedOut foodState) = None \<and>
   addTransaction accepting (signedOut foodState) (expenseInput (binary64 30 0) ''Food'') foodState
     = (foodState, []) \<and>
   deleteTransaction accepting (signedOut foodState) ''t1'' foodState = (foodState, []) \<and>
   deleteBudget accepting (signedOut foodState) ''t1'' foodState = (foodState, [])"
  using C8_unauthenticated_noop[of "signedOut foodState" accepting
      "expenseInput (binary64 30 0) ''Food''" foodState "''t1''"]
  by (simp add: signedOut_def)

subsection \<open>C9: deleting a category\<close>

text \<open>
  Claim C9: deleting a category leaves the transactions and the budgets as they were,
  whatever the remote store answers.
\<close>

theorem C9_deleteCategory_frame:
  "transactions (fst (deleteCategory remote rd ident s)) = transactions s \<and>
   budgets (fst (deleteCategory remote rd ident s)) = budgets s"
  by (simp add: deleteCategory_def Let_def split: option.splits bool.splits Reply.splits)

subsection \<open>C10: adding an income\<close>

text \<open>
  Claim C10: adding a transaction of type income leaves every budget as it was, whatever
  the remote store answers.
\<close>

theorem C10_income_keeps_budgets:
  assumes "ti_type tx = Income"
  shows "budgets (fst (addTransaction remote rd tx s)) = budgets s"
  using assms
  by (simp add: addTransaction_def Let_def split: option.splits bool.splits Reply.splits)

text \<open>Witness of C10: a salary of 1000 added beside a Food and a Rent budget.\<close>

theorem C10_salary_keeps_two_budgets:
  "ti_type (incomeInput (binary64 1000 0) ''Salary'') = Income \<and>
   budgets (fst (addTransaction accepting (signedIn twoBudgets)
     (incomeInput (binary64 1000 0) ''Salary'') twoBudgets)) =
     [budgetOf ''b1'' ''Food'' (binary64 50 0), budgetOf ''b2'' ''Rent'' (binary64 700 0)]"
  using C10_income_keeps_budgets[of "incomeInput (binary64 1000 0) ''Salary''" accepting
      "signedIn twoBudgets" twoBudgets]
  by (simp add: incomeInput_def twoBudgets_def store_def)

end
